theory Spec2Isabelle
  imports Complex_Main
begin

section \<open>The radar page script of \<open>src/radar_turret/web.h\<close>\<close>

text \<open>
  The header embeds the control page; its script (lines 366 to 620) keeps the view in
  module-level variables, polls \<open>/status\<close> every 100 ms and redraws a canvas.  The
  embedding follows the script function by function: \<open>pollStatus\<close>, \<open>updateUI\<close>,
  \<open>draw\<close>, \<open>resizeCanvas\<close>, \<open>init\<close>.

  Numbers are read exactly: a script number is a \<^typ>\<open>rat\<close>, and the decay step
  \<open>0.02\<close> is the rational \<open>1/50\<close>.  Where the script can produce a non-finite
  number (the division in \<open>draw\<close>) the result is a \<open>jsnum\<close>.  Trigonometry is not
  evaluated: a point reached through \<open>Math.cos\<close>/\<open>Math.sin\<close> is kept in polar form and
  an angle in radians is kept as a multiple of \<open>Math.PI\<close> plus an offset.
\<close>

subsection \<open>Script values\<close>

text \<open>
  A field of the parsed \<open>/status\<close> object is a number or is missing (\<open>undefined\<close>):
  \<^typ>\<open>rat option\<close>.  \<open>js_or v d\<close> is \<open>v || d\<close> for a number \<open>d\<close>: a missing field and
  the number zero are both false as conditions.  \<open>js_eq1 v\<close> is \<open>v === 1\<close>.
\<close>

definition js_or :: "rat option \<Rightarrow> rat \<Rightarrow> rat" where
  "js_or v d = (case v of None \<Rightarrow> d | Some x \<Rightarrow> if x \<noteq> 0 then x else d)"

definition js_eq1 :: "rat option \<Rightarrow> bool" where
  "js_eq1 v = (case v of None \<Rightarrow> False | Some x \<Rightarrow> x = 1)"

text \<open>
  \<open>xs[k]\<close> for an array and a number: the element when \<open>k\<close> is an integer index
  inside the array, \<open>undefined\<close> (\<open>None\<close>) otherwise.  Nothing is raised.
\<close>

definition js_index :: "'a list \<Rightarrow> rat \<Rightarrow> 'a option" where
  "js_index xs k =
     (if k = of_int \<lfloor>k\<rfloor> \<and> 0 \<le> k \<and> nat \<lfloor>k\<rfloor> < length xs
      then Some (xs ! nat \<lfloor>k\<rfloor>) else None)"

text \<open>The result of a division: finite, or one of the three non-finite numbers.\<close>

datatype jsnum = Finite rat | PosInf | NegInf | NaN

definition js_div :: "rat \<Rightarrow> rat \<Rightarrow> jsnum" where
  "js_div x y =
     (if y \<noteq> 0 then Finite (x / y)
      else if 0 < x then PosInf else if x < 0 then NegInf else NaN)"

definition js_mul :: "jsnum \<Rightarrow> rat \<Rightarrow> jsnum" where
  "js_mul n y =
     (case n of
        Finite x \<Rightarrow> Finite (x * y)
      | PosInf \<Rightarrow> (if 0 < y then PosInf else if y < 0 then NegInf else NaN)
      | NegInf \<Rightarrow> (if 0 < y then NegInf else if y < 0 then PosInf else NaN)
      | NaN \<Rightarrow> NaN)"

definition js_pos :: "jsnum \<Rightarrow> bool" where
  "js_pos n = (case n of Finite x \<Rightarrow> 0 < x | PosInf \<Rightarrow> True | _ \<Rightarrow> False)"

definition js_le :: "jsnum \<Rightarrow> rat \<Rightarrow> bool" where
  "js_le n y = (case n of Finite x \<Rightarrow> x \<le> y | NegInf \<Rightarrow> True | _ \<Rightarrow> False)"

datatype js_error = TypeError

subsection \<open>The decay buffer\<close>

text \<open>
  An element of \<open>objects\<close> is \<open>{ a, r, life }\<close>; the fields \<open>a\<close> and \<open>r\<close> are named
  \<open>obj_a\<close> and \<open>obj_r\<close> here.
\<close>

record detection =
  obj_a :: rat
  obj_r :: rat
  life :: rat

text \<open>
  Lines 500 and 501 of \<open>draw\<close>:
  \<^verbatim>\<open>objects.forEach(obj => obj.life -= 0.02);\<close>
  \<^verbatim>\<open>objects = objects.filter(obj => obj.life > 0);\<close>
\<close>

definition tick :: "detection list \<Rightarrow> detection list" where
  "tick objs = filter (\<lambda>obj. 0 < life obj) (map (\<lambda>obj. obj\<lparr>life := life obj - 1 / 50\<rparr>) objs)"

subsection \<open>The \<open>/status\<close> payload and the outcome of a poll\<close>

text \<open>
  The object \<open>data\<close> that \<open>r.json()\<close> yields.  \<open>a\<close> is always sent; the other fields
  may be missing.
\<close>

record status =
  data_a :: rat
  data_r :: "rat option"
  data_mode :: "rat option"
  data_running :: "rat option"
  data_d :: "rat option"
  data_li_a :: "rat option"
  data_li_d :: "rat option"

text \<open>
  How the promise chain of \<open>pollStatus\<close> settles: \<open>fetch\<close> rejects, the response is not
  \<open>ok\<close>, \<open>r.json()\<close> rejects, or the payload reaches the \<open>then\<close> callback.
\<close>

datatype response = NetworkError | HttpError | BadJson | OkJson status

subsection \<open>The canvas\<close>

text \<open>
  \<open>Polar cx cy d deg\<close> is the point
  \<open>(cx + d * Math.cos(-deg * Math.PI / 180), cy + d * Math.sin(-deg * Math.PI / 180))\<close>,
  and \<open>Radians p o\<close> is the angle \<open>p * Math.PI + o\<close>.  A fill style is a CSS string or
  the template \<open>rgba(R, G, B, alpha)\<close>.  A frame is the list of calls one pass of
  \<open>draw\<close> makes on \<open>ctx\<close>.
\<close>

datatype point = XY rat rat | Polar rat rat rat rat

datatype angle = Radians rat rat

datatype style = Css string | Rgba nat nat nat rat

datatype canvas_op =
    FillStyle style
  | StrokeStyle string
  | LineWidth rat
  | FillRect rat rat rat rat
  | BeginPath
  | MoveTo point
  | LineTo point
  | Arc point rat angle angle
  | Stroke
  | Fill
  | Font string
  | TextAlign string
  | FillText string point

text \<open>
  What the canvas does with an assignment to \<open>fillStyle\<close>: a string that is not a CSS
  colour is ignored, and the style set before stays in force.  Every string the script
  assigns starts with \<open>#\<close>, and such a string is a colour exactly when 3, 4, 6 or 8
  hexadecimal digits follow.  (Colour names, which the script does not use, are not
  covered.)  The \<open>rgba\<close> template with a number for alpha is a colour.
  \<open>fillStyleAfter cur calls\<close> is the fill style in force after \<open>calls\<close>, starting
  from \<open>cur\<close>.
\<close>

definition hexDigit :: "char \<Rightarrow> bool" where
  "hexDigit c =
     (let n = (of_char c :: nat)
      in (48 \<le> n \<and> n \<le> 57) \<or> (65 \<le> n \<and> n \<le> 70) \<or> (97 \<le> n \<and> n \<le> 102))"

definition hexColour :: "string \<Rightarrow> bool" where
  "hexColour s =
     (case s of
        [] \<Rightarrow> False
      | c # ds \<Rightarrow> c = CHR ''#'' \<and> length ds \<in> {3, 4, 6, 8} \<and> list_all hexDigit ds)"

definition setFillStyle :: "style \<Rightarrow> style \<Rightarrow> style" where
  "setFillStyle cur s =
     (case s of
        Css str \<Rightarrow> if hexColour str then Css str else cur
      | Rgba r g b al \<Rightarrow> Rgba r g b al)"

fun fillStyleAfter :: "style \<Rightarrow> canvas_op list \<Rightarrow> style" where
  "fillStyleAfter cur [] = cur"
| "fillStyleAfter cur (call # calls) =
     fillStyleAfter (case call of FillStyle s \<Rightarrow> setFillStyle cur s | _ \<Rightarrow> cur) calls"

subsection \<open>The page\<close>

text \<open>The text of \<open>#last-detection\<close>: \<open>READY\<close>, or \<open>LAST: <li_d>cm @ <li_a>\<close> with a degree sign.\<close>

datatype footer = READY | LAST rat rat

text \<open>
  The script's variables (\<open>width\<close> to \<open>objects\<close>), the parts of the document it writes
  (the badge, the toggle button, the \<open>selected\<close> class of the four mode buttons, the
  footer) and the frames drawn so far.
\<close>

record page =
  width :: rat
  height :: rat
  scanAngle :: rat
  maxRange :: rat
  currentMode :: rat
  isRunning :: bool
  isOffline :: bool
  objects :: "detection list"
  badgeClass :: string
  badgeText :: string
  toggleText :: string
  toggleActive :: bool
  modeSelected :: "bool list"
  lastDetection :: footer
  frames :: "canvas_op list list"

definition modeNames :: "string list" where
  "modeNames = [''sentry'', ''stealth'', ''aggressive'', ''party'']"

definition modeColors :: "string list" where
  "modeColors = [''#0f0'', ''#666'', ''#f00'', ''#f0f'']"

subsection \<open>\<open>updateUI\<close>\<close>

definition toUpperChar :: "char \<Rightarrow> char" where
  "toUpperChar c =
     (let n = (of_char c :: nat) in if 97 \<le> n \<and> n \<le> 122 then char_of (n - 32) else c)"

definition toUpperCase :: "string \<Rightarrow> string" where
  "toUpperCase s = map toUpperChar s"

text \<open>
  The badge: \<open>modeNames[currentMode]\<close> is read without a fallback.  For an index outside
  the table the class becomes the text \<open>undefined\<close> and the call of \<open>toUpperCase\<close> on
  \<open>undefined\<close> raises a TypeError; the rest of \<open>updateUI\<close> does not run.  The result
  is \<open>Inl\<close> with the error and the page as it is at the throw.
\<close>

definition updateUI :: "page \<Rightarrow> js_error \<times> page + page" where
  "updateUI pg =
     (case (if isOffline pg
            then Inr (pg\<lparr>badgeClass := ''offline'', badgeText := ''OFFLINE''\<rparr>)
            else (case js_index modeNames (currentMode pg) of
                    None \<Rightarrow> Inl (TypeError, pg\<lparr>badgeClass := ''undefined''\<rparr>)
                  | Some name \<Rightarrow> Inr (pg\<lparr>badgeClass := name, badgeText := toUpperCase name\<rparr>)))
      of Inl e \<Rightarrow> Inl e
       | Inr pg1 \<Rightarrow>
           Inr (pg1\<lparr>toggleText := (if isRunning pg1 then ''STOP'' else ''START''),
                     toggleActive := isRunning pg1,
                     modeSelected := map (\<lambda>i. of_nat i = currentMode pg1) [0 ..< 4]\<rparr>))"

subsection \<open>\<open>draw\<close>\<close>

text \<open>\<open>modeColors[currentMode] || '#0f0'\<close>: a missing entry and the empty string give the default.\<close>

definition modeColor :: "rat \<Rightarrow> string" where
  "modeColor m =
     (case js_index modeColors m of
        None \<Rightarrow> ''#0f0''
      | Some c \<Rightarrow> if c \<noteq> [] then c else ''#0f0'')"

text \<open>\<open>for (let i = 1; i <= 4; i++)\<close>: the grid arcs.\<close>

function gridArcs :: "rat \<Rightarrow> rat \<Rightarrow> rat \<Rightarrow> nat \<Rightarrow> canvas_op list" where
  "gridArcs cx cy radius i =
     (if i \<le> 4
      then [BeginPath, Arc (XY cx cy) (radius * (of_nat i / 4)) (Radians 1 0) (Radians 0 0), Stroke]
           @ gridArcs cx cy radius (i + 1)
      else [])"
  by pat_completeness auto
termination
  by (relation "measure (\<lambda>(cx, cy, radius, i). 5 - i)") auto

text \<open>\<open>for (let deg = 30; deg <= 150; deg += 30)\<close>: the angle lines.\<close>

function angleLines :: "rat \<Rightarrow> rat \<Rightarrow> rat \<Rightarrow> nat \<Rightarrow> canvas_op list" where
  "angleLines cx cy radius deg =
     (if deg \<le> 150
      then [BeginPath, MoveTo (XY cx cy), LineTo (Polar cx cy radius (of_nat deg)), Stroke]
           @ angleLines cx cy radius (deg + 30)
      else [])"
  by pat_completeness auto
termination
  by (relation "measure (\<lambda>(cx, cy, radius, deg). 151 - deg)") auto

text \<open>
  The body of the last \<open>objects.forEach\<close>: \<open>dist = (obj.r / maxRange) * radius\<close>, and a
  circle only under \<open>dist > 0 && dist <= radius\<close>.
\<close>

definition drawObject :: "rat \<Rightarrow> rat \<Rightarrow> rat \<Rightarrow> rat \<Rightarrow> detection \<Rightarrow> canvas_op list" where
  "drawObject cx cy radius mr obj =
     (let dist = js_mul (js_div (obj_r obj) mr) radius
      in if js_pos dist \<and> js_le dist radius
         then (case dist of
                 Finite d \<Rightarrow>
                   [FillStyle (Rgba 255 50 50 (life obj)),
                    BeginPath,
                    Arc (Polar cx cy d (obj_a obj)) (4 + (1 - life obj) * 4) (Radians 0 0) (Radians 2 0),
                    Fill]
               | _ \<Rightarrow> [])
         else [])"

definition draw :: "page \<Rightarrow> page" where
  "draw pg =
     (let cx = width pg / 2;
          cy = height pg - 5;
          radius = height pg - 15;
          color = modeColor (currentMode pg);
          objs = tick (objects pg);
          ops =
            [FillStyle (Css ''#000''), FillRect 0 0 (width pg) (height pg)]
            @ [StrokeStyle ''#222'', LineWidth 1] @ gridArcs cx cy radius 1
            @ angleLines cx cy radius 30
            @ [StrokeStyle color, LineWidth 2, BeginPath, MoveTo (XY cx cy),
               LineTo (Polar cx cy radius (scanAngle pg)), Stroke]
            @ [FillStyle (Css (color @ ''20'')), BeginPath, MoveTo (XY cx cy),
               Arc (XY cx cy) radius (Radians (- scanAngle pg / 180) (- 1 / 10))
                 (Radians (- scanAngle pg / 180) (1 / 50)),
               Fill]
            @ concat (map (drawObject cx cy radius (maxRange pg)) objs)
            @ (if isOffline pg
               then [FillStyle (Css ''#f00''), Font ''bold 16px monospace'', TextAlign ''center'',
                     FillText ''DISCONNECTED'' (XY cx (cy - 40))]
               else [])
      in pg\<lparr>objects := objs, frames := frames pg @ [ops]\<rparr>)"

subsection \<open>\<open>pollStatus\<close>\<close>

text \<open>
  The \<open>then\<close> callback up to its calls of \<open>updateUI\<close> and \<open>draw\<close> (lines 407 to 422):
  the response is merged into the variables, a positive \<open>d\<close> is pushed onto \<open>objects\<close>,
  and the footer is rewritten under \<open>data.li_a && data.li_d\<close>.
\<close>

definition applyStatus :: "status \<Rightarrow> page \<Rightarrow> page" where
  "applyStatus data pg =
     (let pg1 = pg\<lparr>isOffline := False,
                   scanAngle := data_a data,
                   maxRange := js_or (data_r data) 50,
                   currentMode := js_or (data_mode data) 0,
                   isRunning := js_eq1 (data_running data)\<rparr>;
          pg2 = (case data_d data of
                   None \<Rightarrow> pg1
                 | Some d \<Rightarrow>
                     if 0 < d
                     then pg1\<lparr>objects := objects pg1 @ [\<lparr>obj_a = data_a data, obj_r = d, life = 1\<rparr>]\<rparr>
                     else pg1)
      in (case (data_li_a data, data_li_d data) of
            (Some la, Some ld) \<Rightarrow>
              if la \<noteq> 0 \<and> ld \<noteq> 0 then pg2\<lparr>lastDetection := LAST ld la\<rparr> else pg2
          | _ \<Rightarrow> pg2))"

text \<open>The whole \<open>then\<close> callback: an error raised by \<open>updateUI\<close> leaves it before \<open>draw\<close>.\<close>

definition onStatus :: "status \<Rightarrow> page \<Rightarrow> js_error \<times> page + page" where
  "onStatus data pg =
     (case updateUI (applyStatus data pg) of
        Inl e \<Rightarrow> Inl e
      | Inr pg1 \<Rightarrow> Inr (draw pg1))"

text \<open>The \<open>catch\<close> callback.  Nothing catches an error raised inside it.\<close>

definition onError :: "page \<Rightarrow> page" where
  "onError pg =
     (case updateUI (pg\<lparr>isOffline := True\<rparr>) of
        Inl (e, pg1) \<Rightarrow> pg1
      | Inr pg1 \<Rightarrow> draw pg1)"

text \<open>
  One poll, from the request to the settled chain.  The \<open>catch\<close> callback also receives
  what the \<open>then\<close> callback raises, with the variables as they are by then.
\<close>

definition pollStatus :: "response \<Rightarrow> page \<Rightarrow> page" where
  "pollStatus resp pg =
     (case resp of
        OkJson data \<Rightarrow>
          (case onStatus data pg of
             Inr pg1 \<Rightarrow> pg1
           | Inl (e, pg1) \<Rightarrow> onError pg1)
      | _ \<Rightarrow> onError pg)"

subsection \<open>\<open>init\<close>\<close>

text \<open>
  The variables as declared (lines 370 to 376) and the document as served.  \<open>width\<close> and
  \<open>height\<close> are declared without a value and are assigned by \<open>resizeCanvas\<close> before
  anything reads them; they stand at 0 until then.
\<close>

definition initial :: page where
  "initial =
     \<lparr>width = 0, height = 0, scanAngle = 90, maxRange = 50, currentMode = 0,
      isRunning = False, isOffline = True, objects = [],
      badgeClass = ''offline'', badgeText = ''OFFLINE'', toggleText = ''START'',
      toggleActive = False, modeSelected = [False, False, False, False],
      lastDetection = READY, frames = []\<rparr>"

definition resizeCanvas :: "rat \<Rightarrow> page \<Rightarrow> page" where
  "resizeCanvas clientWidth pg = pg\<lparr>width := min (clientWidth - 20) 500, height := 260\<rparr>"

text \<open>\<open>init\<close> sizes the canvas and draws once; the interval then runs \<open>pollStatus\<close>.\<close>

definition init :: "rat \<Rightarrow> page" where
  "init clientWidth = draw (resizeCanvas clientWidth initial)"

text \<open>The page after the polls of a session have settled, in the order they settle.\<close>

fun polls :: "response list \<Rightarrow> page \<Rightarrow> page" where
  "polls [] pg = pg"
| "polls (resp # rest) pg = polls rest (pollStatus resp pg)"

subsection \<open>Sample inputs\<close>

text \<open>The payload \<open>{a:90, r:50, mode:0, running:1, d:30}\<close>.\<close>

definition scenario :: status where
  "scenario = \<lparr>data_a = 90, data_r = Some 50, data_mode = Some 0, data_running = Some 1,
                data_d = Some 30, data_li_a = None, data_li_d = None\<rparr>"

text \<open>
  The page as the \<open>then\<close> callback leaves it, before its calls of \<open>updateUI\<close> and
  \<open>draw\<close>, in the second of two polls on a container 520 wide: the first reported a
  distance of 80 at angle 90, the second a distance of 30 at angle 45, both with range 50.
\<close>

definition twoDetections :: page where
  "twoDetections =
     applyStatus (scenario\<lparr>data_a := 45\<rparr>)
       (pollStatus (OkJson (scenario\<lparr>data_d := Some 80\<rparr>)) (init 520))"

section \<open>Properties\<close>

subsection \<open>Table lookups\<close>

lemma js_index_None: "(\<And>i. i < length xs \<Longrightarrow> k \<noteq> of_nat i) \<Longrightarrow> js_index xs k = None"
  unfolding js_index_def
  by (metis of_nat_nat of_int_0_le_iff)

lemma js_index_4:
  "js_index [x0, x1, x2, x3] m =
     (if m = 0 then Some x0 else if m = 1 then Some x1
      else if m = 2 then Some x2 else if m = 3 then Some x3 else None)"
proof (cases "m = 0 \<or> m = 1 \<or> m = 2 \<or> m = 3")
  case True
  then show ?thesis by (auto simp: js_index_def)
next
  case False
  have "js_index [x0, x1, x2, x3] m = None"
  proof (rule js_index_None)
    fix i assume "i < length [x0, x1, x2, x3]"
    then have "i < 4" by simp
    then have "i = 0 \<or> i = 1 \<or> i = 2 \<or> i = 3" by arith
    with False show "m \<noteq> of_nat i" by auto
  qed
  with False show ?thesis by simp
qed

lemma modeColor_eq:
  "modeColor m =
     (if m = 0 then ''#0f0'' else if m = 1 then ''#666''
      else if m = 2 then ''#f00'' else if m = 3 then ''#f0f'' else ''#0f0'')"
  by (simp add: modeColor_def modeColors_def js_index_4)

subsection \<open>What each function leaves alone\<close>

lemma draw_fields:
  "width (draw pg) = width pg" "height (draw pg) = height pg"
  "scanAngle (draw pg) = scanAngle pg" "maxRange (draw pg) = maxRange pg"
  "currentMode (draw pg) = currentMode pg" "isRunning (draw pg) = isRunning pg"
  "isOffline (draw pg) = isOffline pg" "lastDetection (draw pg) = lastDetection pg"
  "badgeClass (draw pg) = badgeClass pg" "badgeText (draw pg) = badgeText pg"
  "objects (draw pg) = tick (objects pg)"
  by (simp_all add: draw_def Let_def)

lemma draw_frames: "\<exists>f. frames (draw pg) = frames pg @ [f]"
  by (simp add: draw_def Let_def)

lemma updateUI_offline:
  "isOffline pg \<Longrightarrow>
   updateUI pg = Inr (pg\<lparr>badgeClass := ''offline'', badgeText := ''OFFLINE'',
                        toggleText := (if isRunning pg then ''STOP'' else ''START''),
                        toggleActive := isRunning pg,
                        modeSelected := map (\<lambda>i. of_nat i = currentMode pg) [0 ..< 4]\<rparr>)"
  by (simp add: updateUI_def)

lemma updateUI_Inr_fields:
  assumes "updateUI pg = Inr pg1"
  shows "width pg1 = width pg" "height pg1 = height pg"
    "scanAngle pg1 = scanAngle pg" "maxRange pg1 = maxRange pg"
    "currentMode pg1 = currentMode pg" "isRunning pg1 = isRunning pg"
    "isOffline pg1 = isOffline pg" "lastDetection pg1 = lastDetection pg"
    "objects pg1 = objects pg" "frames pg1 = frames pg"
  using assms by (auto simp: updateUI_def split: if_splits option.splits)

lemma updateUI_Inl_fields:
  assumes "updateUI pg = Inl (e, pg1)"
  shows "width pg1 = width pg" "height pg1 = height pg"
    "scanAngle pg1 = scanAngle pg" "maxRange pg1 = maxRange pg"
    "currentMode pg1 = currentMode pg" "isRunning pg1 = isRunning pg"
    "isOffline pg1 = isOffline pg" "lastDetection pg1 = lastDetection pg"
    "objects pg1 = objects pg" "frames pg1 = frames pg"
    "\<not> isOffline pg" "e = TypeError"
  using assms by (auto simp: updateUI_def split: if_splits option.splits)

lemma onError_fields:
  "isOffline (onError pg)" "width (onError pg) = width pg" "height (onError pg) = height pg"
  "scanAngle (onError pg) = scanAngle pg" "maxRange (onError pg) = maxRange pg"
  "currentMode (onError pg) = currentMode pg" "isRunning (onError pg) = isRunning pg"
  "lastDetection (onError pg) = lastDetection pg"
  "objects (onError pg) = tick (objects pg)"
  by (simp_all add: onError_def updateUI_offline draw_fields)

lemma onError_frames: "\<exists>f. frames (onError pg) = frames pg @ [f]"
  using draw_frames by (simp add: onError_def updateUI_offline draw_def Let_def)

lemma applyStatus_fields:
  "isOffline (applyStatus data pg) = False"
  "scanAngle (applyStatus data pg) = data_a data"
  "maxRange (applyStatus data pg) = js_or (data_r data) 50"
  "currentMode (applyStatus data pg) = js_or (data_mode data) 0"
  "isRunning (applyStatus data pg) = js_eq1 (data_running data)"
  "width (applyStatus data pg) = width pg"
  "height (applyStatus data pg) = height pg"
  "frames (applyStatus data pg) = frames pg"
  by (simp_all add: applyStatus_def Let_def split: option.splits)

lemma applyStatus_objects:
  "objects (applyStatus data pg) =
     (case data_d data of
        None \<Rightarrow> objects pg
      | Some d \<Rightarrow> if 0 < d then objects pg @ [\<lparr>obj_a = data_a data, obj_r = d, life = 1\<rparr>]
                  else objects pg)"
  by (simp add: applyStatus_def Let_def split: option.splits)

lemma applyStatus_lastDetection:
  "lastDetection (applyStatus data pg) =
     (case (data_li_a data, data_li_d data) of
        (Some la, Some ld) \<Rightarrow> if la \<noteq> 0 \<and> ld \<noteq> 0 then LAST ld la else lastDetection pg
      | _ \<Rightarrow> lastDetection pg)"
  by (simp add: applyStatus_def Let_def split: option.splits)

lemma pollStatus_failed:
  "resp \<in> {NetworkError, HttpError, BadJson} \<Longrightarrow> pollStatus resp pg = onError pg"
  by (auto simp: pollStatus_def)

lemma pollStatus_OkJson:
  "pollStatus (OkJson data) pg =
     (case updateUI (applyStatus data pg) of
        Inr pg1 \<Rightarrow> draw pg1
      | Inl (e, pg1) \<Rightarrow> onError pg1)"
  by (simp add: pollStatus_def onStatus_def split: sum.splits)

lemma pollStatus_OkJson_fields:
  "scanAngle (pollStatus (OkJson data) pg) = scanAngle (applyStatus data pg)"
  "maxRange (pollStatus (OkJson data) pg) = maxRange (applyStatus data pg)"
  "currentMode (pollStatus (OkJson data) pg) = currentMode (applyStatus data pg)"
  "isRunning (pollStatus (OkJson data) pg) = isRunning (applyStatus data pg)"
  "lastDetection (pollStatus (OkJson data) pg) = lastDetection (applyStatus data pg)"
  "width (pollStatus (OkJson data) pg) = width (applyStatus data pg)"
  "height (pollStatus (OkJson data) pg) = height (applyStatus data pg)"
  "objects (pollStatus (OkJson data) pg) = tick (objects (applyStatus data pg))"
  by (auto simp: pollStatus_OkJson draw_fields onError_fields
           split: sum.splits dest: updateUI_Inr_fields updateUI_Inl_fields)

lemma pollStatus_OkJson_frames:
  "\<exists>f. frames (pollStatus (OkJson data) pg) = frames pg @ [f]"
proof (cases "updateUI (applyStatus data pg)")
  case (Inl x)
  obtain e pg1 where x: "x = (e, pg1)" by (cases x)
  have "frames pg1 = frames pg"
    using Inl x updateUI_Inl_fields(10) [of "applyStatus data pg" e pg1]
    by (simp add: applyStatus_fields)
  then show ?thesis
    using onError_frames [of pg1] by (simp add: pollStatus_OkJson Inl x)
next
  case (Inr pg1)
  have "frames pg1 = frames pg"
    using Inr updateUI_Inr_fields(10) [of "applyStatus data pg" pg1]
    by (simp add: applyStatus_fields)
  then show ?thesis
    using draw_frames [of pg1] by (simp add: pollStatus_OkJson Inr)
qed

lemma pollStatus_objects:
  "objects (pollStatus resp pg) =
     tick (objects (case resp of OkJson data \<Rightarrow> applyStatus data pg | _ \<Rightarrow> pg))"
  by (cases resp) (simp_all add: pollStatus_OkJson_fields pollStatus_failed onError_fields)

lemma pollStatus_frames: "\<exists>f. frames (pollStatus resp pg) = frames pg @ [f]"
  by (cases resp) (simp_all add: pollStatus_OkJson_frames pollStatus_failed onError_frames)

lemma init_fields:
  "maxRange (init w) = 50" "objects (init w) = []" "lastDetection (init w) = READY"
  "scanAngle (init w) = 90" "currentMode (init w) = 0" "isRunning (init w) = False"
  by (simp_all add: init_def draw_fields resizeCanvas_def initial_def tick_def)

lemma init_size: "width (init w) = min (w - 20) 500" "height (init w) = 260" "isOffline (init w)"
  by (simp_all add: init_def draw_fields resizeCanvas_def initial_def)

subsection \<open>The frame of one pass\<close>

lemma draw_frame:
  "frames (draw pg) = frames pg @
     [[FillStyle (Css ''#000''), FillRect 0 0 (width pg) (height pg),
       StrokeStyle ''#222'', LineWidth 1]
      @ gridArcs (width pg / 2) (height pg - 5) (height pg - 15) 1
      @ angleLines (width pg / 2) (height pg - 5) (height pg - 15) 30
      @ [StrokeStyle (modeColor (currentMode pg)), LineWidth 2, BeginPath,
         MoveTo (XY (width pg / 2) (height pg - 5)),
         LineTo (Polar (width pg / 2) (height pg - 5) (height pg - 15) (scanAngle pg)), Stroke,
         FillStyle (Css (modeColor (currentMode pg) @ ''20'')), BeginPath,
         MoveTo (XY (width pg / 2) (height pg - 5)),
         Arc (XY (width pg / 2) (height pg - 5)) (height pg - 15)
           (Radians (- scanAngle pg / 180) (- 1 / 10)) (Radians (- scanAngle pg / 180) (1 / 50)),
         Fill]
      @ concat (map (drawObject (width pg / 2) (height pg - 5) (height pg - 15) (maxRange pg))
                 (filter (\<lambda>obj. 0 < life obj)
                    (map (\<lambda>obj. obj\<lparr>life := life obj - 1 / 50\<rparr>) (objects pg))))
      @ (if isOffline pg
         then [FillStyle (Css ''#f00''), Font ''bold 16px monospace'', TextAlign ''center'',
               FillText ''DISCONNECTED'' (XY (width pg / 2) (height pg - 5 - 40))]
         else [])]"
  unfolding draw_def Let_def tick_def by simp

lemma draw_last_frame_cong:
  assumes "width pg' = width pg" "height pg' = height pg" "scanAngle pg' = scanAngle pg"
    "currentMode pg' = currentMode pg" "maxRange pg' = maxRange pg" "objects pg' = objects pg"
    "isOffline pg' = isOffline pg"
  shows "last (frames (draw pg')) = last (frames (draw pg))"
  using assms by (simp add: draw_frame)

lemma updateUI_known_mode:
  "js_index modeNames (currentMode pg) \<noteq> None \<Longrightarrow> \<exists>pg1. updateUI pg = Inr pg1"
  by (auto simp: updateUI_def)

lemma pollStatus_OkJson_last_frame:
  assumes "js_index modeNames (js_or (data_mode data) 0) \<noteq> None"
  shows "last (frames (pollStatus (OkJson data) pg)) = last (frames (draw (applyStatus data pg)))"
proof -
  obtain pg1 where pg1: "updateUI (applyStatus data pg) = Inr pg1"
    using assms updateUI_known_mode [of "applyStatus data pg"] by (auto simp: applyStatus_fields)
  have "last (frames (draw pg1)) = last (frames (draw (applyStatus data pg)))"
    by (rule draw_last_frame_cong) (simp_all add: updateUI_Inr_fields [OF pg1])
  then show ?thesis
    by (simp add: pollStatus_OkJson pg1)
qed

lemma twoDetections_fields:
  "width twoDetections = 500" "height twoDetections = 260" "scanAngle twoDetections = 45"
  "currentMode twoDetections = 0" "maxRange twoDetections = 50" "\<not> isOffline twoDetections"
  "objects twoDetections =
     [\<lparr>obj_a = 90, obj_r = 80, life = 49 / 50\<rparr>, \<lparr>obj_a = 45, obj_r = 30, life = 1\<rparr>]"
  by (simp_all add: twoDetections_def applyStatus_fields applyStatus_objects
        pollStatus_OkJson_fields init_size init_fields scenario_def js_or_def tick_def)

subsection \<open>The range\<close>

text \<open>
  Claim C1, as amended.  A successful poll sets \<open>maxRange\<close> from the response alone: to
  the default 50 when \<open>r\<close> is missing or zero, whatever the previous value was, and to
  \<open>r\<close> when \<open>r\<close> is a non-zero number.
\<close>

theorem maxRange_after_status:
  "(data_r data = None \<or> data_r data = Some 0 \<longrightarrow> maxRange (pollStatus (OkJson data) pg) = 50)
   \<and> (\<forall>x. data_r data = Some x \<and> x \<noteq> 0 \<longrightarrow> maxRange (pollStatus (OkJson data) pg) = x)"
  by (auto simp: pollStatus_OkJson_fields applyStatus_fields js_or_def)

theorem maxRange_after_status_witness:
  "maxRange (pollStatus (OkJson (scenario\<lparr>data_r := None\<rparr>)) (init 520)) = 50
   \<and> maxRange (pollStatus (OkJson (scenario\<lparr>data_r := Some 0\<rparr>)) (init 520)) = 50
   \<and> maxRange (pollStatus (OkJson (scenario\<lparr>data_r := Some 120\<rparr>)) (init 520)) = 120"
  using maxRange_after_status [of "scenario\<lparr>data_r := None\<rparr>" "init 520"]
    maxRange_after_status [of "scenario\<lparr>data_r := Some 0\<rparr>" "init 520"]
    maxRange_after_status [of "scenario\<lparr>data_r := Some 120\<rparr>" "init 520"]
  by (simp add: scenario_def)

text \<open>
  Claim C1 as written fails: after a poll that set \<open>maxRange\<close> to 100, a poll without
  \<open>r\<close> puts it back to 50.
\<close>

theorem maxRange_retained_counterexample:
  "maxRange (pollStatus (OkJson (scenario\<lparr>data_r := Some 100\<rparr>)) (init 520)) = 100
   \<and> maxRange (pollStatus (OkJson (scenario\<lparr>data_r := None\<rparr>))
        (pollStatus (OkJson (scenario\<lparr>data_r := Some 100\<rparr>)) (init 520))) = 50"
  by (simp add: pollStatus_OkJson_fields applyStatus_fields js_or_def scenario_def)

subsection \<open>Failed polls\<close>

text \<open>
  Claim C2.  When the chain is rejected before the \<open>then\<close> callback (no connection, a
  response that is not \<open>ok\<close>, a body that does not parse), \<open>isOffline\<close> becomes true and
  \<open>scanAngle\<close>, \<open>currentMode\<close>, \<open>isRunning\<close>, \<open>maxRange\<close> and the footer keep their
  values.
\<close>

theorem failed_poll_keeps_view:
  assumes "resp \<in> {NetworkError, HttpError, BadJson}"
  shows "isOffline (pollStatus resp pg)
    \<and> scanAngle (pollStatus resp pg) = scanAngle pg
    \<and> currentMode (pollStatus resp pg) = currentMode pg
    \<and> isRunning (pollStatus resp pg) = isRunning pg
    \<and> maxRange (pollStatus resp pg) = maxRange pg
    \<and> lastDetection (pollStatus resp pg) = lastDetection pg"
  using assms by (simp add: pollStatus_failed onError_fields)

theorem failed_poll_keeps_view_witness:
  "HttpError \<in> {NetworkError, HttpError, BadJson}
   \<and> isOffline (pollStatus HttpError (pollStatus (OkJson (scenario\<lparr>data_r := Some 120\<rparr>)) (init 520)))
   \<and> scanAngle (pollStatus HttpError (pollStatus (OkJson (scenario\<lparr>data_r := Some 120\<rparr>)) (init 520))) = 90
   \<and> currentMode (pollStatus HttpError (pollStatus (OkJson (scenario\<lparr>data_r := Some 120\<rparr>)) (init 520))) = 0
   \<and> isRunning (pollStatus HttpError (pollStatus (OkJson (scenario\<lparr>data_r := Some 120\<rparr>)) (init 520)))
   \<and> maxRange (pollStatus HttpError (pollStatus (OkJson (scenario\<lparr>data_r := Some 120\<rparr>)) (init 520))) = 120"
  using failed_poll_keeps_view
    [of HttpError "pollStatus (OkJson (scenario\<lparr>data_r := Some 120\<rparr>)) (init 520)"]
  by (simp add: pollStatus_OkJson_fields applyStatus_fields js_or_def js_eq1_def scenario_def)

subsection \<open>The last intrusion\<close>

text \<open>
  The guard \<open>data.li_a && data.li_d\<close> lets a pair through when both values are present
  and neither is the number zero; the footer then shows that distance and angle.
\<close>

lemma last_intrusion_overwritten:
  assumes "data_li_a data = Some la" and "data_li_d data = Some ld"
    and "la \<noteq> 0" and "ld \<noteq> 0"
  shows "lastDetection (pollStatus (OkJson data) pg) = LAST ld la"
  using assms by (simp add: pollStatus_OkJson_fields applyStatus_lastDetection)

text \<open>
  Claim C3.  The claim asks that a poll carrying both \<open>li_a\<close> and \<open>li_d\<close> rewrites the
  footer, also for an intrusion at angle 0.  The script does not: its guard tests
  presence by truth value, and the angle 0 is false.  A poll with \<open>li_a = 0\<close> and
  \<open>li_d = 30\<close> leaves the footer of the fresh page at \<open>READY\<close>, where the same poll with
  \<open>li_a = 45\<close> shows \<open>LAST: 30cm @ 45\<close>; and after that poll, a newer intrusion at
  angle 0 and distance 20 leaves the older one on display.
\<close>

theorem last_intrusion_at_angle_zero_dropped:
  "lastDetection (pollStatus (OkJson (scenario\<lparr>data_li_a := Some 0, data_li_d := Some 30\<rparr>)) (init 520))
     = READY
   \<and> lastDetection (pollStatus (OkJson (scenario\<lparr>data_li_a := Some 45, data_li_d := Some 30\<rparr>)) (init 520))
     = LAST 30 45
   \<and> lastDetection
       (pollStatus (OkJson (scenario\<lparr>data_li_a := Some 0, data_li_d := Some 20\<rparr>))
          (pollStatus (OkJson (scenario\<lparr>data_li_a := Some 45, data_li_d := Some 30\<rparr>)) (init 520)))
     = LAST 30 45"
  by (simp add: pollStatus_OkJson_fields applyStatus_lastDetection scenario_def init_fields)

subsection \<open>Recording a detection\<close>

text \<open>
  Claim C4.  The \<open>then\<close> callback pushes exactly one entry, with \<open>life = 1\<close> and the
  polled angle and distance, when \<open>d\<close> is positive, and pushes nothing when \<open>d\<close> is
  zero or missing.  The pass of \<open>draw\<close> that ends the same poll then applies its decay
  tick to the whole buffer, the new entry included.
\<close>

theorem positive_distance_recorded:
  "(\<forall>d. data_d data = Some d \<and> 0 < d \<longrightarrow>
      objects (applyStatus data pg) = objects pg @ [\<lparr>obj_a = data_a data, obj_r = d, life = 1\<rparr>])
   \<and> (data_d data = Some 0 \<or> data_d data = None \<longrightarrow> objects (applyStatus data pg) = objects pg)
   \<and> objects (pollStatus (OkJson data) pg) = tick (objects (applyStatus data pg))"
  by (auto simp: applyStatus_objects pollStatus_OkJson_fields)

theorem positive_distance_recorded_witness:
  "objects (applyStatus scenario (init 520)) = [\<lparr>obj_a = 90, obj_r = 30, life = 1\<rparr>]
   \<and> objects (applyStatus (scenario\<lparr>data_d := Some 0\<rparr>) (init 520)) = []"
  using positive_distance_recorded [of scenario "init 520"]
    positive_distance_recorded [of "scenario\<lparr>data_d := Some 0\<rparr>" "init 520"]
  by (simp add: scenario_def init_fields)

subsection \<open>Decay\<close>

lemma tick_Nil: "tick [] = []"
  by (simp add: tick_def)

lemma tick_append: "tick (xs @ ys) = tick xs @ tick ys"
  by (simp add: tick_def)

lemma tick_funpow_append: "(tick ^^ n) (xs @ ys) = (tick ^^ n) xs @ (tick ^^ n) ys"
  by (induction n arbitrary: xs ys) (simp_all add: tick_append funpow_swap1)

lemma tick_single:
  "tick [\<lparr>obj_a = a, obj_r = r, life = l\<rparr>] =
     (if 1 / 50 < l then [\<lparr>obj_a = a, obj_r = r, life = l - 1 / 50\<rparr>] else [])"
  by (simp add: tick_def)

lemma tick_funpow_single:
  "(tick ^^ n) [\<lparr>obj_a = a, obj_r = r, life = 1\<rparr>] =
     (if n < 50 then [\<lparr>obj_a = a, obj_r = r, life = 1 - of_nat n / 50\<rparr>] else [])"
proof (induction n)
  case 0
  show ?case by simp
next
  case (Suc n)
  show ?case
  proof (cases "n < 50")
    case True
    have "1 / 50 < (1::rat) - of_nat n / 50 \<longleftrightarrow> Suc n < 50"
    proof -
      have "1 / 50 < (1::rat) - of_nat n / 50 \<longleftrightarrow> (of_nat (Suc n) :: rat) < of_nat 50"
        by (simp add: field_simps)
      then show ?thesis by (simp only: of_nat_less_iff)
    qed
    moreover have "(1::rat) - of_nat n / 50 - 1 / 50 = 1 - of_nat (Suc n) / 50"
      by (simp add: field_simps)
    ultimately show ?thesis
      using Suc True by (simp add: tick_single)
  next
    case False
    then show ?thesis
      using Suc by (simp add: tick_Nil)
  qed
qed

text \<open>
  Claim C5.  Read with exact arithmetic, a detection that stands in the buffer with
  \<open>life = 1\<close> has \<open>life = 1 - n/50\<close> after \<open>n\<close> decay ticks for as long as that is
  positive, and is gone from the tick on that brings it to zero, whatever else the
  buffer holds.  It is present, with \<open>life = 1/50\<close>, after the 49th tick and absent
  after the 51st.
\<close>

theorem decay_from_full_life:
  "(tick ^^ n) (xs @ \<lparr>obj_a = a, obj_r = r, life = 1\<rparr> # ys) =
     (tick ^^ n) xs
     @ (if n < 50 then [\<lparr>obj_a = a, obj_r = r, life = 1 - of_nat n / 50\<rparr>] else [])
     @ (tick ^^ n) ys
   \<and> (tick ^^ 49) [\<lparr>obj_a = a, obj_r = r, life = 1\<rparr>] = [\<lparr>obj_a = a, obj_r = r, life = 1 / 50\<rparr>]
   \<and> (tick ^^ 51) [\<lparr>obj_a = a, obj_r = r, life = 1\<rparr>] = []"
proof -
  have "(tick ^^ n) (xs @ [\<lparr>obj_a = a, obj_r = r, life = 1\<rparr>] @ ys) =
     (tick ^^ n) xs
     @ (if n < 50 then [\<lparr>obj_a = a, obj_r = r, life = 1 - of_nat n / 50\<rparr>] else [])
     @ (tick ^^ n) ys"
    by (simp only: tick_funpow_append tick_funpow_single)
  moreover have "(tick ^^ 49) [\<lparr>obj_a = a, obj_r = r, life = 1\<rparr>] = [\<lparr>obj_a = a, obj_r = r, life = 1 / 50\<rparr>]"
    using tick_funpow_single [of 49 a r] by simp
  moreover have "(tick ^^ 51) [\<lparr>obj_a = a, obj_r = r, life = 1\<rparr>] = []"
    using tick_funpow_single [of 51 a r] by simp
  ultimately show ?thesis
    by simp
qed

subsection \<open>The renderer\<close>

lemma drawObject_finite:
  "mr \<noteq> 0 \<Longrightarrow>
   drawObject cx cy radius mr obj =
     (if 0 < obj_r obj / mr * radius \<and> obj_r obj / mr * radius \<le> radius
      then [FillStyle (Rgba 255 50 50 (life obj)), BeginPath,
            Arc (Polar cx cy (obj_r obj / mr * radius) (obj_a obj)) (4 + (1 - life obj) * 4)
              (Radians 0 0) (Radians 2 0),
            Fill]
      else [])"
  by (simp add: drawObject_def js_div_def js_mul_def js_pos_def js_le_def)

lemma drawObject_zero_range: "drawObject cx cy radius 0 obj = []"
  by (simp add: drawObject_def js_div_def js_mul_def js_pos_def js_le_def)

lemma hexColour_glow: "\<not> hexColour (modeColor m @ ''20'')"
  by (simp add: modeColor_eq hexColour_def)

lemma hexColour_black: "hexColour ''#000''"
  by (simp add: hexColour_def hexDigit_def)

text \<open>
  In every pass, for every mode and whatever style was in force before, the style in
  force when the glow wedge is filled is the \<open>#000\<close> that cleared the canvas.
\<close>

lemma glow_fill_in_force:
  "fillStyleAfter s0
     ([FillStyle (Css ''#000''), FillRect 0 0 w h, StrokeStyle ''#222'', LineWidth 1]
      @ gridArcs cx cy radius 1 @ angleLines cx cy radius 30
      @ [StrokeStyle (modeColor m), LineWidth 2, BeginPath, MoveTo (XY cx cy),
         LineTo (Polar cx cy radius a), Stroke,
         FillStyle (Css (modeColor m @ ''20'')), BeginPath, MoveTo (XY cx cy),
         Arc (XY cx cy) radius a1 a2]) = Css ''#000''"
  using hexColour_glow [of m]
  by (simp add: setFillStyle_def hexColour_black)

text \<open>
  Claim C6.  \<open>draw\<close> looks the colour up as \<open>modeColors[currentMode] || '#0f0'\<close>
  (\<open>modeColor_eq\<close>: \<open>#0f0\<close>, \<open>#666\<close>, \<open>#f00\<close>, \<open>#f0f\<close> for modes 0 to 3 and \<open>#0f0\<close> for any
  other number) and strokes the sweep line with it (\<open>draw_frame\<close>).  For the glow it
  assigns the colour followed by \<open>20\<close> to \<open>fillStyle\<close>.  With the three-digit colours
  of \<open>modeColors\<close> that string has five hexadecimal digits and is no colour, so the
  canvas ignores it and the wedge is filled with the \<open>#000\<close> of the first line of
  \<open>draw\<close>: the glow is not drawn in the mode's colour.  Shown on the frame of the poll
  \<open>{a:90, r:50, mode:0, running:1, d:30}\<close> on the fresh page, where the style in force
  before the frame is the \<open>#f00\<close> of the label drawn by \<open>init\<close>; the same string
  results for a mode outside the table.
\<close>

theorem glow_fill_style_ignored:
  "let frame = last (frames (pollStatus (OkJson scenario) (init 520)));
       pre = [FillStyle (Css ''#000''), FillRect 0 0 500 260, StrokeStyle ''#222'', LineWidth 1,
              BeginPath, Arc (XY 250 255) (245 / 4) (Radians 1 0) (Radians 0 0), Stroke,
              BeginPath, Arc (XY 250 255) (245 / 2) (Radians 1 0) (Radians 0 0), Stroke,
              BeginPath, Arc (XY 250 255) (735 / 4) (Radians 1 0) (Radians 0 0), Stroke,
              BeginPath, Arc (XY 250 255) 245 (Radians 1 0) (Radians 0 0), Stroke,
              BeginPath, MoveTo (XY 250 255), LineTo (Polar 250 255 245 30), Stroke,
              BeginPath, MoveTo (XY 250 255), LineTo (Polar 250 255 245 60), Stroke,
              BeginPath, MoveTo (XY 250 255), LineTo (Polar 250 255 245 90), Stroke,
              BeginPath, MoveTo (XY 250 255), LineTo (Polar 250 255 245 120), Stroke,
              BeginPath, MoveTo (XY 250 255), LineTo (Polar 250 255 245 150), Stroke,
              StrokeStyle ''#0f0'', LineWidth 2, BeginPath, MoveTo (XY 250 255),
              LineTo (Polar 250 255 245 90), Stroke];
       glow = [FillStyle (Css ''#0f020''), BeginPath, MoveTo (XY 250 255),
               Arc (XY 250 255) 245 (Radians (- 1 / 2) (- 1 / 10)) (Radians (- 1 / 2) (1 / 50)),
               Fill];
       post = [FillStyle (Rgba 255 50 50 (49 / 50)), BeginPath,
               Arc (Polar 250 255 147 90) (102 / 25) (Radians 0 0) (Radians 2 0), Fill]
   in frame = pre @ glow @ post
      \<and> \<not> hexColour ''#0f020''
      \<and> fillStyleAfter (Css ''#f00'') (pre @ butlast glow) = Css ''#000''
      \<and> fillStyleAfter (Css ''#f00'') (pre @ butlast glow) \<noteq> Css ''#0f0''
      \<and> modeColor 7 @ ''20'' = ''#0f020''"
proof -
  have "js_index modeNames (js_or (data_mode scenario) 0) \<noteq> None"
    by (simp add: scenario_def js_or_def modeNames_def js_index_4)
  then have "last (frames (pollStatus (OkJson scenario) (init 520)))
      = last (frames (draw (applyStatus scenario (init 520))))"
    by (rule pollStatus_OkJson_last_frame)
  then show ?thesis
    by (simp add: draw_frame applyStatus_fields applyStatus_objects init_fields init_size
          scenario_def js_or_def modeColor_eq drawObject_finite hexColour_def setFillStyle_def
          hexDigit_def)
qed

lemma draw_skips_out_of_range:
  assumes "maxRange pg \<noteq> 0"
    and "height pg - 15 < obj_r obj / maxRange pg * (height pg - 15)"
  shows "last (frames (draw (pg\<lparr>objects := xs @ obj # ys\<rparr>)))
       = last (frames (draw (pg\<lparr>objects := xs @ ys\<rparr>)))"
  using assms by (simp add: draw_frame drawObject_finite)

lemma draw_appends_in_range:
  assumes "maxRange pg \<noteq> 0" and "\<not> isOffline pg" and "1 / 50 < life obj"
    and "0 < obj_r obj / maxRange pg * (height pg - 15)"
    and "obj_r obj / maxRange pg * (height pg - 15) \<le> height pg - 15"
  shows "last (frames (draw (pg\<lparr>objects := xs @ [obj]\<rparr>)))
       = last (frames (draw (pg\<lparr>objects := xs\<rparr>)))
         @ [FillStyle (Rgba 255 50 50 (life obj - 1 / 50)), BeginPath,
            Arc (Polar (width pg / 2) (height pg - 5)
                   (obj_r obj / maxRange pg * (height pg - 15)) (obj_a obj))
              (4 + (1 - (life obj - 1 / 50)) * 4) (Radians 0 0) (Radians 2 0),
            Fill]"
  using assms by (simp add: draw_frame drawObject_finite)

text \<open>
  Claim C7.  With \<open>dist = obj.r / maxRange * radius\<close>, \<open>drawObject\<close> issues no call
  for a detection with \<open>dist > radius\<close>, and for one with \<open>0 < dist \<le> radius\<close> one
  filled circle at distance \<open>dist\<close> along its angle, of radius \<open>4 + (1 - life) * 4\<close>
  (from 4 up to, but below, 8 for \<open>life\<close> in \<open>(0, 1]\<close>) and alpha \<open>life\<close>; a
  \<open>maxRange\<close> of zero would make \<open>dist\<close> non-finite, and nothing is drawn then.
  The frame of \<open>draw\<close> is, call for call, the fixed part, then the calls of
  \<open>drawObject\<close> for the detections whose \<open>life\<close> is still positive after the step of
  \<open>1/50\<close> in buffer order, then the label when offline.  So a detection beyond the
  radius, wherever it stands in the buffer, leaves the frame as it would be without it;
  and a detection within the radius with \<open>life\<close> above \<open>1/50\<close>, added at the end of
  the buffer of an online page, adds exactly its circle, with the decremented \<open>life\<close>
  as alpha, at the end of the frame.
\<close>

theorem detection_drawn_within_radius:
  "(mr \<noteq> 0 \<and> radius < obj_r obj / mr * radius \<longrightarrow> drawObject cx cy radius mr obj = [])
   \<and> (mr \<noteq> 0 \<and> 0 < obj_r obj / mr * radius \<and> obj_r obj / mr * radius \<le> radius \<longrightarrow>
        drawObject cx cy radius mr obj =
          [FillStyle (Rgba 255 50 50 (life obj)), BeginPath,
           Arc (Polar cx cy (obj_r obj / mr * radius) (obj_a obj)) (4 + (1 - life obj) * 4)
             (Radians 0 0) (Radians 2 0),
           Fill])
   \<and> (mr = 0 \<longrightarrow> drawObject cx cy radius mr obj = [])
   \<and> (0 < life obj \<and> life obj \<le> 1 \<longrightarrow>
        4 \<le> 4 + (1 - life obj) * 4 \<and> 4 + (1 - life obj) * 4 < 8)
   \<and> frames (draw pg) = frames pg @
       [[FillStyle (Css ''#000''), FillRect 0 0 (width pg) (height pg),
         StrokeStyle ''#222'', LineWidth 1]
        @ gridArcs (width pg / 2) (height pg - 5) (height pg - 15) 1
        @ angleLines (width pg / 2) (height pg - 5) (height pg - 15) 30
        @ [StrokeStyle (modeColor (currentMode pg)), LineWidth 2, BeginPath,
           MoveTo (XY (width pg / 2) (height pg - 5)),
           LineTo (Polar (width pg / 2) (height pg - 5) (height pg - 15) (scanAngle pg)), Stroke,
           FillStyle (Css (modeColor (currentMode pg) @ ''20'')), BeginPath,
           MoveTo (XY (width pg / 2) (height pg - 5)),
           Arc (XY (width pg / 2) (height pg - 5)) (height pg - 15)
             (Radians (- scanAngle pg / 180) (- 1 / 10)) (Radians (- scanAngle pg / 180) (1 / 50)),
           Fill]
        @ concat (map (drawObject (width pg / 2) (height pg - 5) (height pg - 15) (maxRange pg))
                   (filter (\<lambda>obj. 0 < life obj)
                      (map (\<lambda>obj. obj\<lparr>life := life obj - 1 / 50\<rparr>) (objects pg))))
        @ (if isOffline pg
           then [FillStyle (Css ''#f00''), Font ''bold 16px monospace'', TextAlign ''center'',
                 FillText ''DISCONNECTED'' (XY (width pg / 2) (height pg - 5 - 40))]
           else [])]
   \<and> (maxRange pg \<noteq> 0
        \<and> height pg - 15 < obj_r obj / maxRange pg * (height pg - 15) \<longrightarrow>
        last (frames (draw (pg\<lparr>objects := xs @ obj # ys\<rparr>)))
          = last (frames (draw (pg\<lparr>objects := xs @ ys\<rparr>))))
   \<and> (maxRange pg \<noteq> 0 \<and> \<not> isOffline pg \<and> 1 / 50 < life obj
        \<and> 0 < obj_r obj / maxRange pg * (height pg - 15)
        \<and> obj_r obj / maxRange pg * (height pg - 15) \<le> height pg - 15 \<longrightarrow>
        last (frames (draw (pg\<lparr>objects := xs @ [obj]\<rparr>)))
          = last (frames (draw (pg\<lparr>objects := xs\<rparr>)))
            @ [FillStyle (Rgba 255 50 50 (life obj - 1 / 50)), BeginPath,
               Arc (Polar (width pg / 2) (height pg - 5)
                      (obj_r obj / maxRange pg * (height pg - 15)) (obj_a obj))
                 (4 + (1 - (life obj - 1 / 50)) * 4) (Radians 0 0) (Radians 2 0),
               Fill])"
  using draw_frame [of pg] draw_skips_out_of_range [of pg obj xs ys]
    draw_appends_in_range [of pg obj xs]
  by (simp add: drawObject_finite drawObject_zero_range)

text \<open>
  On the page \<open>twoDetections\<close> the buffer holds a detection at distance 80, beyond the
  range of 50, and one at distance 30.  Both are still in the buffer after the pass;
  the frame holds the fixed part and one circle, for the second, at \<open>30/50\<close> of the
  radius of 245.
\<close>

theorem detection_drawn_within_radius_witness:
  "objects twoDetections =
     [\<lparr>obj_a = 90, obj_r = 80, life = 49 / 50\<rparr>, \<lparr>obj_a = 45, obj_r = 30, life = 1\<rparr>]
   \<and> objects (draw twoDetections) =
     [\<lparr>obj_a = 90, obj_r = 80, life = 24 / 25\<rparr>, \<lparr>obj_a = 45, obj_r = 30, life = 49 / 50\<rparr>]
   \<and> last (frames (draw twoDetections)) =
     [FillStyle (Css ''#000''), FillRect 0 0 500 260, StrokeStyle ''#222'', LineWidth 1,
      BeginPath, Arc (XY 250 255) (245 / 4) (Radians 1 0) (Radians 0 0), Stroke,
      BeginPath, Arc (XY 250 255) (245 / 2) (Radians 1 0) (Radians 0 0), Stroke,
      BeginPath, Arc (XY 250 255) (735 / 4) (Radians 1 0) (Radians 0 0), Stroke,
      BeginPath, Arc (XY 250 255) 245 (Radians 1 0) (Radians 0 0), Stroke,
      BeginPath, MoveTo (XY 250 255), LineTo (Polar 250 255 245 30), Stroke,
      BeginPath, MoveTo (XY 250 255), LineTo (Polar 250 255 245 60), Stroke,
      BeginPath, MoveTo (XY 250 255), LineTo (Polar 250 255 245 90), Stroke,
      BeginPath, MoveTo (XY 250 255), LineTo (Polar 250 255 245 120), Stroke,
      BeginPath, MoveTo (XY 250 255), LineTo (Polar 250 255 245 150), Stroke,
      StrokeStyle ''#0f0'', LineWidth 2, BeginPath, MoveTo (XY 250 255),
      LineTo (Polar 250 255 245 45), Stroke,
      FillStyle (Css ''#0f020''), BeginPath, MoveTo (XY 250 255),
      Arc (XY 250 255) 245 (Radians (- 1 / 4) (- 1 / 10)) (Radians (- 1 / 4) (1 / 50)), Fill,
      FillStyle (Rgba 255 50 50 (49 / 50)), BeginPath,
      Arc (Polar 250 255 147 45) (102 / 25) (Radians 0 0) (Radians 2 0), Fill]
   \<and> last (frames (draw twoDetections))
       = last (frames (draw (twoDetections\<lparr>objects := [\<lparr>obj_a = 45, obj_r = 30, life = 1\<rparr>]\<rparr>)))
   \<and> drawObject 250 255 245 50 \<lparr>obj_a = 90, obj_r = 80, life = 24 / 25\<rparr> = []
   \<and> drawObject 250 255 245 50 \<lparr>obj_a = 90, obj_r = 50, life = 1 / 2\<rparr> =
       [FillStyle (Rgba 255 50 50 (1 / 2)), BeginPath,
        Arc (Polar 250 255 245 90) 6 (Radians 0 0) (Radians 2 0), Fill]
   \<and> drawObject 250 255 245 0 \<lparr>obj_a = 90, obj_r = 30, life = 1 / 2\<rparr> = []"
proof -
  have skipped: "drawObject 250 255 245 50 \<lparr>obj_a = 90, obj_r = 80, life = 24 / 25\<rparr> = []"
    using detection_drawn_within_radius
      [of 50 245 "\<lparr>obj_a = 90, obj_r = 80, life = 24 / 25\<rparr>" 250 255 twoDetections "[]" "[]"]
    by simp
  have drawn: "drawObject 250 255 245 50 \<lparr>obj_a = 90, obj_r = 50, life = 1 / 2\<rparr> =
       [FillStyle (Rgba 255 50 50 (1 / 2)), BeginPath,
        Arc (Polar 250 255 245 90) 6 (Radians 0 0) (Radians 2 0), Fill]"
    using detection_drawn_within_radius
      [of 50 245 "\<lparr>obj_a = 90, obj_r = 50, life = 1 / 2\<rparr>" 250 255 twoDetections "[]" "[]"]
    by simp
  have zero: "drawObject 250 255 245 0 \<lparr>obj_a = 90, obj_r = 30, life = 1 / 2\<rparr> = []"
    using detection_drawn_within_radius
      [of 0 245 "\<lparr>obj_a = 90, obj_r = 30, life = 1 / 2\<rparr>" 250 255 twoDetections "[]" "[]"]
    by simp
  have same: "last (frames (draw twoDetections))
       = last (frames (draw (twoDetections\<lparr>objects := [\<lparr>obj_a = 45, obj_r = 30, life = 1\<rparr>]\<rparr>)))"
  proof -
    have "maxRange twoDetections \<noteq> 0
        \<and> height twoDetections - 15
            < obj_r \<lparr>obj_a = 90, obj_r = 80, life = 49 / 50\<rparr> / maxRange twoDetections
              * (height twoDetections - 15) \<longrightarrow>
        last (frames (draw (twoDetections\<lparr>objects :=
            [] @ \<lparr>obj_a = 90, obj_r = 80, life = 49 / 50\<rparr> # [\<lparr>obj_a = 45, obj_r = 30, life = 1\<rparr>]\<rparr>)))
          = last (frames (draw (twoDetections\<lparr>objects :=
            [] @ [\<lparr>obj_a = 45, obj_r = 30, life = 1\<rparr>]\<rparr>)))"
      using detection_drawn_within_radius
        [of 50 245 "\<lparr>obj_a = 90, obj_r = 80, life = 49 / 50\<rparr>" 250 255 twoDetections
            "[]" "[\<lparr>obj_a = 45, obj_r = 30, life = 1\<rparr>]"]
      by blast
    then have "last (frames (draw (twoDetections\<lparr>objects :=
            [\<lparr>obj_a = 90, obj_r = 80, life = 49 / 50\<rparr>, \<lparr>obj_a = 45, obj_r = 30, life = 1\<rparr>]\<rparr>)))
          = last (frames (draw (twoDetections\<lparr>objects := [\<lparr>obj_a = 45, obj_r = 30, life = 1\<rparr>]\<rparr>)))"
      by (simp add: twoDetections_fields)
    moreover have "twoDetections\<lparr>objects := objects twoDetections\<rparr> = twoDetections"
      by simp
    ultimately show ?thesis
      by (simp only: twoDetections_fields(7))
  qed
  have frame: "last (frames (draw twoDetections)) =
     [FillStyle (Css ''#000''), FillRect 0 0 500 260, StrokeStyle ''#222'', LineWidth 1,
      BeginPath, Arc (XY 250 255) (245 / 4) (Radians 1 0) (Radians 0 0), Stroke,
      BeginPath, Arc (XY 250 255) (245 / 2) (Radians 1 0) (Radians 0 0), Stroke,
      BeginPath, Arc (XY 250 255) (735 / 4) (Radians 1 0) (Radians 0 0), Stroke,
      BeginPath, Arc (XY 250 255) 245 (Radians 1 0) (Radians 0 0), Stroke,
      BeginPath, MoveTo (XY 250 255), LineTo (Polar 250 255 245 30), Stroke,
      BeginPath, MoveTo (XY 250 255), LineTo (Polar 250 255 245 60), Stroke,
      BeginPath, MoveTo (XY 250 255), LineTo (Polar 250 255 245 90), Stroke,
      BeginPath, MoveTo (XY 250 255), LineTo (Polar 250 255 245 120), Stroke,
      BeginPath, MoveTo (XY 250 255), LineTo (Polar 250 255 245 150), Stroke,
      StrokeStyle ''#0f0'', LineWidth 2, BeginPath, MoveTo (XY 250 255),
      LineTo (Polar 250 255 245 45), Stroke,
      FillStyle (Css ''#0f020''), BeginPath, MoveTo (XY 250 255),
      Arc (XY 250 255) 245 (Radians (- 1 / 4) (- 1 / 10)) (Radians (- 1 / 4) (1 / 50)), Fill,
      FillStyle (Rgba 255 50 50 (49 / 50)), BeginPath,
      Arc (Polar 250 255 147 45) (102 / 25) (Radians 0 0) (Radians 2 0), Fill]"
    by (simp add: draw_frame twoDetections_fields modeColor_eq drawObject_finite)
  have after: "objects (draw twoDetections) =
     [\<lparr>obj_a = 90, obj_r = 80, life = 24 / 25\<rparr>, \<lparr>obj_a = 45, obj_r = 30, life = 49 / 50\<rparr>]"
    by (simp add: draw_fields twoDetections_fields tick_def)
  show ?thesis
    using skipped drawn zero same frame after twoDetections_fields(7) by simp
qed

subsection \<open>The range is never zero\<close>

lemma pollStatus_maxRange_nonzero:
  "maxRange pg \<noteq> 0 \<Longrightarrow> maxRange (pollStatus resp pg) \<noteq> 0"
proof (cases resp)
  case (OkJson data)
  then show ?thesis
    by (simp add: pollStatus_OkJson_fields applyStatus_fields js_or_def split: option.splits)
qed (simp_all add: pollStatus_failed onError_fields)

lemma polls_maxRange_nonzero:
  "maxRange pg \<noteq> 0 \<Longrightarrow> maxRange (polls rs pg) \<noteq> 0"
  by (induction rs arbitrary: pg) (simp_all add: pollStatus_maxRange_nonzero)

text \<open>
  Claim C8.  \<open>maxRange\<close> starts at 50 and is written only by the \<open>then\<close> callback, as
  \<open>data.r || 50\<close>: a missing or zero \<open>r\<close> gives 50.  So it is non-zero on the page the
  callback hands on to \<open>draw\<close> and on every page reached from \<open>init\<close> by any sequence
  of polls, and the division \<open>obj.r / maxRange\<close> of \<open>draw\<close> is finite there.
\<close>

theorem maxRange_never_zero:
  "maxRange (polls rs (init w)) \<noteq> 0
   \<and> js_div x (maxRange (polls rs (init w))) = Finite (x / maxRange (polls rs (init w)))
   \<and> maxRange (applyStatus data pg) \<noteq> 0
   \<and> (data_r data = None \<or> data_r data = Some 0 \<longrightarrow> maxRange (applyStatus data pg) = 50)"
proof -
  have "maxRange (polls rs (init w)) \<noteq> 0"
    by (rule polls_maxRange_nonzero) (simp add: init_fields)
  then show ?thesis
    by (auto simp: js_div_def applyStatus_fields js_or_def split: option.splits)
qed

theorem maxRange_never_zero_witness:
  "maxRange (applyStatus (scenario\<lparr>data_r := Some 0\<rparr>) (init 520)) = 50
   \<and> maxRange (applyStatus (scenario\<lparr>data_r := None\<rparr>) (init 520)) = 50
   \<and> maxRange (polls [OkJson (scenario\<lparr>data_r := Some 0\<rparr>), NetworkError] (init 520)) \<noteq> 0"
  using maxRange_never_zero
      [of "[OkJson (scenario\<lparr>data_r := Some 0\<rparr>), NetworkError]" 520 0
          "scenario\<lparr>data_r := Some 0\<rparr>" "init 520"]
    maxRange_never_zero [of "[]" 520 0 "scenario\<lparr>data_r := None\<rparr>" "init 520"]
  by (simp add: scenario_def)

subsection \<open>One pass of the renderer per poll\<close>

lemma polls_failed_objects:
  "resp \<in> {NetworkError, HttpError, BadJson} \<Longrightarrow>
   objects (polls (replicate n resp) pg) = (tick ^^ n) (objects pg)"
proof (induction n arbitrary: pg)
  case 0
  show ?case by simp
next
  case (Suc n)
  have "objects (polls (replicate (Suc n) resp) pg) = (tick ^^ n) (objects (pollStatus resp pg))"
    using Suc by simp
  also have "\<dots> = (tick ^^ n) (tick (objects pg))"
    using Suc.prems by (simp add: pollStatus_failed onError_fields)
  finally show ?case by (simp add: funpow_swap1)
qed

text \<open>
  Claim C9.  Every settled poll, successful or failed, adds exactly one frame, and a
  pass of \<open>draw\<close> applies \<open>tick\<close> exactly once: after the poll the buffer is one tick
  of the buffer the callbacks left.  So \<open>n\<close> failed polls in a row apply \<open>n\<close> ticks:
  the detections keep decaying by \<open>1/50\<close> per poll while the page is offline.
\<close>

theorem one_render_and_tick_per_poll:
  "(\<exists>f. frames (pollStatus resp pg) = frames pg @ [f])
   \<and> objects (pollStatus resp pg) =
       tick (objects (case resp of OkJson data \<Rightarrow> applyStatus data pg | _ \<Rightarrow> pg))
   \<and> (\<exists>f. frames (draw pg) = frames pg @ [f]) \<and> objects (draw pg) = tick (objects pg)
   \<and> (resp \<in> {NetworkError, HttpError, BadJson} \<longrightarrow>
        objects (polls (replicate n resp) pg) = (tick ^^ n) (objects pg))"
  using pollStatus_frames [of resp pg] draw_frames [of pg]
  by (simp add: pollStatus_objects draw_fields polls_failed_objects)

theorem one_render_and_tick_per_poll_witness:
  "objects (polls (replicate 2 NetworkError) (pollStatus (OkJson scenario) (init 520)))
     = [\<lparr>obj_a = 90, obj_r = 30, life = 47 / 50\<rparr>]"
  using one_render_and_tick_per_poll [of NetworkError "pollStatus (OkJson scenario) (init 520)" 2]
  by (simp add: pollStatus_objects applyStatus_objects scenario_def init_fields tick_def
        numeral_2_eq_2)

subsection \<open>The badge\<close>

text \<open>
  Claim C10.  A successful poll that reports a mode outside \<open>{0, 1, 2, 3}\<close> leaves the
  page not offline with that mode, and \<open>updateUI\<close> then finds no name in \<open>modeNames\<close>
  and raises a TypeError at the badge instead of returning, where the colour lookup of
  \<open>draw\<close> falls back to \<open>#0f0\<close> for the same mode.
\<close>

theorem updateUI_badge_not_total:
  assumes "m \<notin> {0, 1, 2, 3}" and "data_mode data = Some m"
  shows "js_index modeNames m = None
    \<and> currentMode (applyStatus data pg) = m \<and> \<not> isOffline (applyStatus data pg)
    \<and> updateUI (applyStatus data pg) =
        Inl (TypeError, (applyStatus data pg)\<lparr>badgeClass := ''undefined''\<rparr>)
    \<and> modeColor m = ''#0f0''"
proof -
  have idx: "js_index modeNames m = None"
    using assms(1) by (simp add: modeNames_def js_index_4)
  have m: "currentMode (applyStatus data pg) = m"
    using assms by (simp add: applyStatus_fields js_or_def)
  have off: "\<not> isOffline (applyStatus data pg)"
    by (simp add: applyStatus_fields)
  have "updateUI (applyStatus data pg) =
        Inl (TypeError, (applyStatus data pg)\<lparr>badgeClass := ''undefined''\<rparr>)"
    using idx m off by (simp add: updateUI_def)
  moreover have "modeColor m = ''#0f0''"
    using assms(1) by (simp add: modeColor_eq)
  ultimately show ?thesis
    using idx m off by simp
qed

theorem updateUI_badge_not_total_witness:
  "(7::rat) \<notin> {0, 1, 2, 3}
   \<and> updateUI (applyStatus (scenario\<lparr>data_mode := Some 7\<rparr>) (init 520)) =
       Inl (TypeError, (applyStatus (scenario\<lparr>data_mode := Some 7\<rparr>) (init 520))\<lparr>badgeClass := ''undefined''\<rparr>)
   \<and> modeColor 7 = ''#0f0''"
  using updateUI_badge_not_total [of 7 "scenario\<lparr>data_mode := Some 7\<rparr>" "init 520"]
  by (simp add: scenario_def)

end
